theory Spec2Isabelle
  imports Complex_Main
begin

section \<open>Macdonald polynomials: partitions and the structural scalars\<close>

text \<open>
  The module \<^verbatim>\<open>sage/combinat/sf/macdonald.py\<close> works over partition-indexed coefficient
  dictionaries. A partition is the list of its parts. The scalars \<open>q\<close> and \<open>t\<close> of a basis
  are elements of its base ring (the generators of a fraction field, or values of the
  ring when the basis is specialised), so every function below takes them as arguments
  of an arbitrary ring or field type, as the Python functions do.
\<close>

type_synonym partition = "nat list"

subsection \<open>The partition library\<close>

text \<open>
  Modelled from the spec: the partition library (\<^verbatim>\<open>sage.combinat.partition\<close>) is not
  part of the sources at hand. The glossary fixes what is used here: the weight is the sum
  of the parts, the arm length of a cell is the number of cells strictly to its right in
  its row, the leg length the number of cells strictly below it in its column, the
  weighted size is \<open>n(\<lambda>) = \<Sum> (i-1) \<lambda>\<^sub>i\<close>, and the conjugate partition has as its
  \<open>j\<close>-th part the number of parts of \<open>\<lambda>\<close> that exceed \<open>j\<close>. \<^verbatim>\<open>arm_lengths\<close> and
  \<^verbatim>\<open>leg_lengths\<close> give one list per row.
\<close>

definition size_p :: "partition \<Rightarrow> nat" where
  "size_p part = sum_list part"

definition arm_lengths :: "partition \<Rightarrow> nat list list" where
  "arm_lengths part = map (\<lambda>r. map (\<lambda>j. r - (j + 1)) [0..<r]) part"

definition leg_lengths :: "partition \<Rightarrow> nat list list" where
  "leg_lengths part =
     map (\<lambda>i. map (\<lambda>j. length (filter (\<lambda>r. j < r) (drop (i + 1) part))) [0..<part ! i])
         [0..<length part]"

definition weighted_size :: "partition \<Rightarrow> nat" where
  "weighted_size part = sum_list (map (\<lambda>i. i * (part ! i)) [0..<length part])"

definition conjugate :: "partition \<Rightarrow> partition" where
  "conjugate part =
     map (\<lambda>j. length (filter (\<lambda>r. j < r) part)) [0..<(case part of [] \<Rightarrow> 0 | r # _ \<Rightarrow> r)]"

text \<open>
  \<^verbatim>\<open>Partitions(n)\<close> lists the partitions of \<open>n\<close> with the largest first part first, so
  \<^verbatim>\<open>Partitions(3)\<close> is \<open>[3], [2,1], [1,1,1]\<close> (the order of the docstrings of the module).
  \<open>partitions_bounded n m\<close> lists the partitions of \<open>n\<close> whose parts are at most \<open>m\<close>.
\<close>

fun partitions_bounded :: "nat \<Rightarrow> nat \<Rightarrow> partition list" where
  "partitions_bounded 0 m = [[]]"
| "partitions_bounded (Suc n) 0 = []"
| "partitions_bounded (Suc n) (Suc m) =
     (if m \<le> n then map ((#) (Suc m)) (partitions_bounded (n - m) (Suc m)) else [])
     @ partitions_bounded (Suc n) m"

definition partitions :: "nat \<Rightarrow> partition list" where
  "partitions n = partitions_bounded n n"

subsection \<open>\<^verbatim>\<open>c1\<close> and \<^verbatim>\<open>c2\<close>\<close>

text \<open>
  \<^verbatim>\<open>res = q.parent()(1); for i in range(part.size()): res *= 1 - q**(arms[i]+1) * t**(legs[i])\<close>
  where \<^verbatim>\<open>arms = sum(part.arm_lengths(), [])\<close> and \<^verbatim>\<open>legs = sum(part.leg_lengths(), [])\<close>.
\<close>

definition c1 :: "partition \<Rightarrow> 'a::comm_ring_1 \<Rightarrow> 'a \<Rightarrow> 'a" where
  "c1 part q t =
     foldl (\<lambda>res i. res * (1 - q ^ (concat (arm_lengths part) ! i + 1)
                                 * t ^ (concat (leg_lengths part) ! i)))
           1 [0..<size_p part]"

definition c2 :: "partition \<Rightarrow> 'a::comm_ring_1 \<Rightarrow> 'a \<Rightarrow> 'a" where
  "c2 part q t =
     foldl (\<lambda>res i. res * (1 - q ^ (concat (arm_lengths part) ! i)
                                 * t ^ (concat (leg_lengths part) ! i + 1)))
           1 [0..<size_p part]"

text \<open>The cells of a partition, each as the pair of its arm length and its leg length.\<close>

definition cells :: "partition \<Rightarrow> (nat \<times> nat) list" where
  "cells part = zip (concat (arm_lengths part)) (concat (leg_lengths part))"

section \<open>Elements and module morphisms\<close>

text \<open>
  The exceptions of the module: \<^verbatim>\<open>ValueError\<close> is raised explicitly, the others by the
  interpreter or the libraries (a call with a wrong number of arguments, an unbound
  global name, a division by the zero of a field, a key missing from a dictionary, an
  operation that a library does not provide).
\<close>

datatype error =
  ValueError | TypeError | NameError | ZeroDivisionError | KeyError | NotImplementedError

text \<open>
  An element of a basis is its dictionary \<^verbatim>\<open>_monomial_coefficients\<close>, from partitions to
  non-zero coefficients: an association list, in the order in which the dictionary is
  traversed. The class of the element says which basis it belongs to.
\<close>

type_synonym 'a element = "(partition \<times> 'a) list"

datatype family = McdP | McdQ | McdJ | McdH | McdHt | McdS

datatype basis = Macdonald family | SFASchur | SFAPower | SFAHomogeneous

text \<open>
  Modelled from the spec: the arithmetic of elements and the two helpers
  \<^verbatim>\<open>_apply_module_morphism\<close> and \<^verbatim>\<open>_apply_multi_module_morphism\<close> live in \<^verbatim>\<open>sfa\<close>, which
  is not part of the sources at hand. Following sections 3 and 4.2 of the spec: elements
  are sparse (zero entries are omitted), \<^verbatim>\<open>_apply_module_morphism(x, f)\<close> extends \<open>f\<close>
  linearly, \<open>\<Sum> c \<cdot> f(m)\<close> over the terms \<open>(m, c)\<close> of \<open>x\<close>, and
  \<^verbatim>\<open>_apply_multi_module_morphism(x, y, f, orthogonal=True)\<close> applies the bilinear form
  termwise, \<open>\<Sum> cx \<cdot> cy \<cdot> f(m, m)\<close> over the partitions \<open>m\<close> in the support of both, the
  cross terms being zero by definition. An exception raised by \<open>f\<close> ends the loop.
\<close>

definition coefficient :: "'a::zero element \<Rightarrow> partition \<Rightarrow> 'a" where
  "coefficient x m = (case map_of x m of None \<Rightarrow> 0 | Some c \<Rightarrow> c)"

definition basis_element :: "partition \<Rightarrow> 'a::zero_neq_one element" where
  "basis_element m = [(m, 1)]"

fun add_term :: "partition \<Rightarrow> 'a::{zero,plus} \<Rightarrow> 'a element \<Rightarrow> 'a element" where
  "add_term m c [] = (if c = 0 then [] else [(m, c)])"
| "add_term m c ((k, d) # x) =
     (if k = m then (if d + c = 0 then x else (k, d + c) # x) else (k, d) # add_term m c x)"

definition element_add :: "'a::{zero,plus} element \<Rightarrow> 'a element \<Rightarrow> 'a element" where
  "element_add x y = fold (\<lambda>(m, c). add_term m c) y x"

definition element_sum :: "'a::{zero,plus} element list \<Rightarrow> 'a element" where
  "element_sum xs = foldl element_add [] xs"

definition scale :: "'a::{zero,times} \<Rightarrow> 'a element \<Rightarrow> 'a element" where
  "scale c x = filter (\<lambda>(m, d). d \<noteq> 0) (map (\<lambda>(m, d). (m, c * d)) x)"

fun apply_module_morphism_from ::
  "'a::semiring_0 element \<Rightarrow> 'a element \<Rightarrow> (partition \<Rightarrow> error + 'a element)
   \<Rightarrow> error + 'a element" where
  "apply_module_morphism_from res [] f = Inr res"
| "apply_module_morphism_from res ((m, c) # x) f =
     (case f m of
        Inl e \<Rightarrow> Inl e
      | Inr y \<Rightarrow> apply_module_morphism_from (element_add res (scale c y)) x f)"

definition apply_module_morphism ::
  "'a::semiring_0 element \<Rightarrow> (partition \<Rightarrow> error + 'a element) \<Rightarrow> error + 'a element" where
  "apply_module_morphism x f = apply_module_morphism_from [] x f"

fun apply_multi_module_morphism_from ::
  "'a::semiring_0 \<Rightarrow> 'a element \<Rightarrow> 'a element \<Rightarrow> (partition \<Rightarrow> partition \<Rightarrow> error + 'a)
   \<Rightarrow> error + 'a" where
  "apply_multi_module_morphism_from res [] y f = Inr res"
| "apply_multi_module_morphism_from res ((mx, cx) # x) y f =
     (case map_of y mx of
        None \<Rightarrow> apply_multi_module_morphism_from res x y f
      | Some cy \<Rightarrow>
          (case f mx mx of
             Inl e \<Rightarrow> Inl e
           | Inr v \<Rightarrow> apply_multi_module_morphism_from (res + cx * cy * v) x y f))"

definition apply_multi_module_morphism ::
  "'a::semiring_0 element \<Rightarrow> 'a element \<Rightarrow> (partition \<Rightarrow> partition \<Rightarrow> error + 'a)
   \<Rightarrow> error + 'a" where
  "apply_multi_module_morphism x y f = apply_multi_module_morphism_from 0 x y f"

section \<open>The operators on elements\<close>

subsection \<open>\<^verbatim>\<open>nabla\<close> on the Ht basis\<close>

text \<open>
  \<^verbatim>\<open>MacdonaldPolynomials_ht.Element.nabla\<close>:
  \<^verbatim>\<open>f = lambda part: (Ht.t)**(part.weighted_size()) * (Ht.q)**(part.conjugate().weighted_size()) * Ht(part)\<close>,
  extended linearly by \<^verbatim>\<open>Ht._apply_module_morphism(self, f)\<close>.
\<close>

definition ht_nabla :: "'a::field \<Rightarrow> 'a \<Rightarrow> 'a element \<Rightarrow> error + 'a element" where
  "ht_nabla q t x =
     apply_module_morphism x
       (\<lambda>part. Inr (scale (t ^ weighted_size part * q ^ weighted_size (conjugate part))
                          (basis_element part)))"

subsection \<open>The qt-Hall scalar product\<close>

text \<open>
  An element together with the class it is an instance of (\<^verbatim>\<open>isinstance(x, ...Element)\<close>
  tests the first component).
\<close>

type_synonym 'a sf = "basis \<times> 'a element"

text \<open>
  What \<^verbatim>\<open>scalar_qt\<close> takes from outside the module: the coercion \<^verbatim>\<open>p(x)\<close> of an element
  into the power-sum basis \<^verbatim>\<open>sfa.SFAPower\<close>, and \<^verbatim>\<open>part.centralizer_size(t=..., q=...)\<close>.
  Both are parameters of the model; either may raise.
\<close>

record 'a sfa =
  to_power :: "'a sf \<Rightarrow> error + 'a element"
  centralizer_size :: "partition \<Rightarrow> 'a \<Rightarrow> 'a \<Rightarrow> error + 'a"

text \<open>
  \<^verbatim>\<open>MacdonaldPolynomials_p.scalar_qt_basis(part1, part2=None)\<close>: zero when a second
  partition is given and differs, \<^verbatim>\<open>self.c1(part1) / self.c2(part1)\<close> otherwise.
\<close>

definition scalar_qt_basis ::
  "'a::field \<Rightarrow> 'a \<Rightarrow> partition \<Rightarrow> partition option \<Rightarrow> error + 'a" where
  "scalar_qt_basis q t part1 part2 =
     (if (case part2 of None \<Rightarrow> False | Some p2 \<Rightarrow> part1 \<noteq> p2) then Inr 0
      else if c2 part1 q t = 0 then Inl ZeroDivisionError
      else Inr (c1 part1 q t / c2 part1 q t))"

text \<open>\<^verbatim>\<open>MacdonaldPolynomials_generic.Element.scalar_qt\<close>: through the power sums.\<close>

definition generic_scalar_qt ::
  "'a::field sfa \<Rightarrow> 'a \<Rightarrow> 'a \<Rightarrow> 'a sf \<Rightarrow> 'a sf \<Rightarrow> error + 'a" where
  "generic_scalar_qt lib q t self x =
     (case to_power lib self of
        Inl e \<Rightarrow> Inl e
      | Inr p_self \<Rightarrow>
          (case to_power lib x of
             Inl e \<Rightarrow> Inl e
           | Inr p_x \<Rightarrow>
               apply_multi_module_morphism p_self p_x
                 (\<lambda>part1 part2. centralizer_size lib part1 t q)))"

text \<open>
  \<^verbatim>\<open>MacdonaldPolynomials_q.Element.scalar_qt\<close>: the constant \<open>1\<close> on the diagonal against
  an element of the P basis, and otherwise
  \<^verbatim>\<open>MacdonaldPolynomials_generic.Element.scalar_qt(self, x)\<close>.
\<close>

definition q_scalar_qt ::
  "'a::field sfa \<Rightarrow> 'a \<Rightarrow> 'a \<Rightarrow> 'a element \<Rightarrow> 'a sf \<Rightarrow> error + 'a" where
  "q_scalar_qt lib q t self x =
     (if fst x = Macdonald McdP
      then apply_multi_module_morphism self (snd x) (\<lambda>part1 part2. Inr 1)
      else generic_scalar_qt lib q t (Macdonald McdQ, self) x)"

text \<open>
  \<^verbatim>\<open>MacdonaldPolynomials_p.Element.scalar_qt\<close>: \<^verbatim>\<open>scalar_qt_basis\<close> on the diagonal
  against an element of the P basis, \<^verbatim>\<open>x.scalar_qt(self)\<close> against an element of the Q
  basis. The last branch is \<^verbatim>\<open>super(Element, self).scalar_qt(self, x)\<close>: the name
  \<^verbatim>\<open>Element\<close> is bound in the body of the class \<^verbatim>\<open>MacdonaldPolynomials_p\<close> only, neither
  in the module nor among the builtins, so evaluating it raises \<^verbatim>\<open>NameError\<close>.
\<close>

definition p_scalar_qt ::
  "'a::field sfa \<Rightarrow> 'a \<Rightarrow> 'a \<Rightarrow> 'a element \<Rightarrow> 'a sf \<Rightarrow> error + 'a" where
  "p_scalar_qt lib q t self x =
     (if fst x = Macdonald McdP
      then apply_multi_module_morphism self (snd x)
             (\<lambda>part1 part2. scalar_qt_basis q t part1 (Some part2))
      else if fst x = Macdonald McdQ
      then q_scalar_qt lib q t (snd x) (Macdonald McdP, self)
      else Inl NameError)"

text \<open>
  \<^verbatim>\<open>MacdonaldPolynomials_j.Element.scalar_qt\<close>: \<^verbatim>\<open>c1(part1) * c2(part2)\<close> on the diagonal
  against an element of the J basis. The last branch is
  \<^verbatim>\<open>super(MacdonaldPolynomials_j.Element, self).scalar_qt(self, x)\<close>: the bound method of
  the generic class takes one argument besides \<^verbatim>\<open>self\<close> and is given two, which raises
  \<^verbatim>\<open>TypeError\<close>.
\<close>

definition j_scalar_qt ::
  "'a::field sfa \<Rightarrow> 'a \<Rightarrow> 'a \<Rightarrow> 'a element \<Rightarrow> 'a sf \<Rightarrow> error + 'a" where
  "j_scalar_qt lib q t self x =
     (if fst x = Macdonald McdJ
      then apply_multi_module_morphism self (snd x)
             (\<lambda>part1 part2. Inr (c1 part1 q t * c2 part2 q t))
      else Inl TypeError)"

text \<open>
  \<^verbatim>\<open>self.scalar_qt(x)\<close>, resolved by the class of \<^verbatim>\<open>self\<close>: the classes of the H, Ht and S
  bases inherit the generic method.
\<close>

fun scalar_qt :: "'a::field sfa \<Rightarrow> 'a \<Rightarrow> 'a \<Rightarrow> 'a sf \<Rightarrow> 'a sf \<Rightarrow> error + 'a" where
  "scalar_qt lib q t (Macdonald McdP, self) x = p_scalar_qt lib q t self x"
| "scalar_qt lib q t (Macdonald McdQ, self) x = q_scalar_qt lib q t self x"
| "scalar_qt lib q t (Macdonald McdJ, self) x = j_scalar_qt lib q t self x"
| "scalar_qt lib q t (b, self) x = generic_scalar_qt lib q t (b, self) x"

subsection \<open>The creation operator on the S basis\<close>

text \<open>
  \<^verbatim>\<open>_creation_by_determinant_helper(k, part)\<close> builds the \<open>k \<times> k\<close> matrix over the
  homogeneous symmetric functions: row \<open>i\<close> starts with \<^verbatim>\<open>max(0, (i+1)-2-part[i])\<close> zeros
  and continues, for \<open>j\<close> up to \<open>k\<close>, with
  \<^verbatim>\<open>(1 - q**(part[i]+j-i+1) * t**(k-(j+1))) * h(p)\<close>, where \<^verbatim>\<open>p\<close> is \<^verbatim>\<open>[part[i]+j-i+1]\<close> if
  that value is positive and \<^verbatim>\<open>[]\<close> otherwise. An entry is an element of the homogeneous
  basis. The exponent of \<open>q\<close> is an integer; from the column where a row starts it is
  not negative.
\<close>

definition creation_matrix ::
  "'a::field \<Rightarrow> 'a \<Rightarrow> nat \<Rightarrow> nat list \<Rightarrow> 'a element list list" where
  "creation_matrix q t k part =
     map (\<lambda>i. let lo = nat (max 0 ((int i + 1) - 2 - int (part ! i))) in
               replicate lo []
               @ map (\<lambda>j. let v = int (part ! i) + int j - int i + 1 in
                           scale (1 - power_int q v * t ^ (k - (j + 1)))
                                 (basis_element (if v > 0 then [nat v] else [])))
                     [lo..<k])
         [0..<k]"

text \<open>
  The helper pads \<^verbatim>\<open>part\<close> with zeros up to length \<open>k\<close>
  (\<^verbatim>\<open>part += [0]*(k-len(part))\<close>, nothing when \<open>k - len(part)\<close> is not positive), raises
  \<^verbatim>\<open>ValueError\<close> if the result is longer than \<open>k\<close>, and otherwise returns the determinant
  of the matrix, converted to the Schur basis and relabelled in the S basis. The
  determinant over the homogeneous functions and its conversion are outside the module:
  \<open>det_s\<close> is a parameter.
\<close>

definition creation_by_determinant_helper ::
  "('a::field element list list \<Rightarrow> 'a element) \<Rightarrow> 'a \<Rightarrow> 'a \<Rightarrow> nat \<Rightarrow> nat list
   \<Rightarrow> error + 'a element" where
  "creation_by_determinant_helper det_s q t k part0 =
     (let part = part0 @ replicate (k - length part0) 0 in
      if length part > k then Inl ValueError
      else Inr (det_s (creation_matrix q t k part)))"

text \<open>
  \<^verbatim>\<open>creation(k)\<close> is \<^verbatim>\<open>_creation_by_determinant(k)\<close>, the linear extension of the helper.
\<close>

definition creation ::
  "('a::field element list list \<Rightarrow> 'a element) \<Rightarrow> 'a \<Rightarrow> 'a \<Rightarrow> 'a element \<Rightarrow> nat
   \<Rightarrow> error + 'a element" where
  "creation det_s q t x k =
     apply_module_morphism x (creation_by_determinant_helper det_s q t k)"

text \<open>
  The determinant of a \<open>1 \<times> 1\<close> matrix is its entry, and \<open>h[1] = s[1]\<close>, \<open>h[] = s[]\<close>:
  this is \<open>det_s\<close> for \<open>k = 1\<close>, where \<^verbatim>\<open>S(1).creation(1)\<close> is \<open>(1 - q) S[1]\<close>.
\<close>

definition det_s_1x1 :: "'a element list list \<Rightarrow> 'a element" where
  "det_s_1x1 M = (case M of [[e]] \<Rightarrow> e | _ \<Rightarrow> [])"

section \<open>Construction of a basis\<close>





text \<open>
  The structure-constant tables are module-level dictionaries (\<^verbatim>\<open>j_to_s_cache\<close>,
  \<^verbatim>\<open>s_to_j_cache\<close>, ...), from a degree to a table; a table maps a partition to the
  dictionary of its row. They are the state that \<^verbatim>\<open>_s_cache\<close> updates.
\<close>

type_synonym 'a table = "(partition \<times> 'a element) list"

record 'a caches =
  self_to_s_cache :: "family \<Rightarrow> nat \<Rightarrow> 'a table option"
  s_to_self_cache :: "family \<Rightarrow> nat \<Rightarrow> 'a table option"




section \<open>Coercions between the bases\<close>

text \<open>Sequencing of two steps that may raise.\<close>

definition and_then :: "error + 'b \<Rightarrow> ('b \<Rightarrow> error + 'c) \<Rightarrow> error + 'c" where
  "and_then r f = (case r of Inl e \<Rightarrow> Inl e | Inr y \<Rightarrow> f y)"

text \<open>
  Modelled from the spec: \<^verbatim>\<open>module_morphism(diagonal = d, codomain = B)\<close> and its inverse
  \<^verbatim>\<open>~phi\<close> belong to the category framework, which is not part of the sources at hand.
  Section 4.3 of the spec describes them as diagonal module maps, the multiplication by
  a scalar per partition: the term \<open>c \<cdot> A[m]\<close> goes to \<open>c \<cdot> d(m) \<cdot> B[m]\<close>, and the inverse
  map uses \<open>1 / d(m)\<close>, a division in the base ring.
\<close>

definition module_morphism_diagonal ::
  "(partition \<Rightarrow> error + 'a::field) \<Rightarrow> 'a element \<Rightarrow> error + 'a element" where
  "module_morphism_diagonal d x =
     apply_module_morphism x (\<lambda>m. and_then (d m) (\<lambda>v. Inr (scale v (basis_element m))))"









section \<open>Change of basis through the Schur functions\<close>

subsection \<open>The classical library\<close>

text \<open>
  What the S basis takes from outside the module: the coercions \<^verbatim>\<open>p(x)\<close> of a Schur
  element into the power sums and \<^verbatim>\<open>s(x)\<close> of a power-sum element into the Schur
  functions (\<^verbatim>\<open>sfa.SFAPower\<close>, \<^verbatim>\<open>sfa.SFASchur\<close>), and the inverse \<^verbatim>\<open>~M\<close> of a matrix over
  the base ring. They are parameters of the model.
\<close>

record 'a classical =
  schur_to_power :: "'a element \<Rightarrow> 'a element"
  power_to_schur :: "'a element \<Rightarrow> 'a element"
  matrix_inverse :: "'a list list \<Rightarrow> error + 'a list list"

text \<open>
  Modelled from the spec: \<^verbatim>\<open>map_item\<close> is a method of the elements of \<^verbatim>\<open>sfa\<close>; it applies a
  function to every term \<open>(m, c)\<close> of an element and collects the results, zero
  entries omitted.
\<close>

definition map_item ::
  "(partition \<Rightarrow> 'a \<Rightarrow> partition \<times> 'a) \<Rightarrow> 'a::{zero,plus} element \<Rightarrow> 'a element" where
  "map_item f x = fold (\<lambda>(m, c) res. case f m c of (m', c') \<Rightarrow> add_term m' c' res) x []"

text \<open>
  \<^verbatim>\<open>MacdonaldPolynomials_s._to_s(part)\<close>: \<^verbatim>\<open>p_x = p(s(part))\<close>, every term \<open>(m, c)\<close> of it
  scaled to \<^verbatim>\<open>c * prod([(1 - t**k) for k in m])\<close> with \<^verbatim>\<open>t = self.t\<close>, the result converted
  back by \<^verbatim>\<open>s(...)\<close>; the function returned reads a coefficient of that element.
\<close>

definition mcd_s_to_s :: "'a::field classical \<Rightarrow> 'a \<Rightarrow> partition \<Rightarrow> partition \<Rightarrow> 'a" where
  "mcd_s_to_s lib t part =
     (let p_x = schur_to_power lib (basis_element part);
          res = power_to_schur lib
                  (map_item (\<lambda>m c. (m, c * prod_list (map (\<lambda>k. 1 - t ^ k) m))) p_x)
      in (\<lambda>part2. coefficient res part2))"

subsection \<open>The tables of \<^verbatim>\<open>_s_cache\<close>\<close>

text \<open>
  Modelled from the spec: \<^verbatim>\<open>_invert_morphism\<close> and \<^verbatim>\<open>_from_cache\<close> live in \<^verbatim>\<open>sfa\<close>, which is
  not part of the sources at hand. By sections 3 and 4.1 of the spec, for a degree \<open>n\<close>
  and a function \<open>toOther\<close> that gives the row of each partition of \<open>n\<close>, two tables
  are computed, the direct one built from \<open>toOther\<close> and its inverse; rows and columns
  are the partitions of \<open>n\<close>, zero entries are omitted, a degree is computed on demand
  and kept, and a table is either fully computed for a degree or not present at all.
  The inverse of the matrix of the direct table is taken from the library, as the call
  \<^verbatim>\<open>self._invert_morphism(n, QQqt, ..., to_other_function = self._to_s)\<close> of the H, Ht and
  S bases names no triangularity.
\<close>

definition direct_table :: "(partition \<Rightarrow> partition \<Rightarrow> 'a::zero) \<Rightarrow> nat \<Rightarrow> 'a table" where
  "direct_table to_other n =
     map (\<lambda>p. (p, filter (\<lambda>(p', v). v \<noteq> 0) (map (\<lambda>p'. (p', to_other p p')) (partitions n))))
         (partitions n)"

definition dense_matrix :: "(partition \<Rightarrow> partition \<Rightarrow> 'a) \<Rightarrow> nat \<Rightarrow> 'a list list" where
  "dense_matrix to_other n = map (\<lambda>p. map (to_other p) (partitions n)) (partitions n)"

definition table_of_matrix :: "nat \<Rightarrow> 'a::zero list list \<Rightarrow> 'a table" where
  "table_of_matrix n M =
     map (\<lambda>(p, row). (p, filter (\<lambda>(p', v). v \<noteq> 0) (zip (partitions n) row)))
         (zip (partitions n) M)"

definition invert_morphism ::
  "'a::field classical \<Rightarrow> nat \<Rightarrow> (nat \<Rightarrow> 'a table option) \<Rightarrow> (nat \<Rightarrow> 'a table option)
   \<Rightarrow> (partition \<Rightarrow> partition \<Rightarrow> 'a)
   \<Rightarrow> error + (nat \<Rightarrow> 'a table option) \<times> (nat \<Rightarrow> 'a table option)" where
  "invert_morphism lib n known_cache unknown_cache to_other =
     (if known_cache n \<noteq> None \<and> unknown_cache n \<noteq> None then Inr (known_cache, unknown_cache)
      else case matrix_inverse lib (dense_matrix to_other n) of
             Inl e \<Rightarrow> Inl e
           | Inr inverse_matrix \<Rightarrow>
               Inr (known_cache(n \<mapsto> direct_table to_other n),
                    unknown_cache(n \<mapsto> table_of_matrix n inverse_matrix)))"

text \<open>
  \<^verbatim>\<open>MacdonaldPolynomials_s._s_cache(n)\<close>, on the two dictionaries \<^verbatim>\<open>S_to_s_cache\<close> and
  \<^verbatim>\<open>s_to_S_cache\<close> of the module.
\<close>

definition mcd_s_s_cache ::
  "'a::field classical \<Rightarrow> 'a \<Rightarrow> nat \<Rightarrow> 'a caches \<Rightarrow> (error + unit) \<times> 'a caches" where
  "mcd_s_s_cache lib t n cs =
     (case invert_morphism lib n (self_to_s_cache cs McdS) (s_to_self_cache cs McdS)
             (mcd_s_to_s lib t) of
        Inl e \<Rightarrow> (Inl e, cs)
      | Inr (known, unknown) \<Rightarrow>
          (Inr (), cs\<lparr>self_to_s_cache := (self_to_s_cache cs)(McdS := known),
                      s_to_self_cache := (s_to_self_cache cs)(McdS := unknown)\<rparr>))"

text \<open>
  \<^verbatim>\<open>_from_cache(element, cache_function, cache_dict)\<close>: for every term \<open>(part, c)\<close> of the
  element, the table of the degree of \<open>part\<close> is computed by \<^verbatim>\<open>cache_function\<close> if it is
  not in \<^verbatim>\<open>cache_dict\<close>, and \<open>c\<close> times the row of \<open>part\<close> is added to the result. The
  tables hold the coefficients at the \<open>q\<close> and \<open>t\<close> of the basis.
\<close>

fun from_cache_terms ::
  "(nat \<Rightarrow> 'a caches \<Rightarrow> (error + unit) \<times> 'a caches) \<Rightarrow> ('a caches \<Rightarrow> nat \<Rightarrow> 'a table option)
   \<Rightarrow> 'a::semiring_0 element \<Rightarrow> 'a element \<Rightarrow> 'a caches
   \<Rightarrow> (error + 'a element) \<times> 'a caches" where
  "from_cache_terms cache_function cache_dict z_elt [] cs = (Inr z_elt, cs)"
| "from_cache_terms cache_function cache_dict z_elt ((part, c) # x) cs =
     (case (if cache_dict cs (sum_list part) = None then cache_function (sum_list part) cs
            else (Inr (), cs)) of
        (Inl e, cs') \<Rightarrow> (Inl e, cs')
      | (Inr u, cs') \<Rightarrow>
          (case cache_dict cs' (sum_list part) of
             None \<Rightarrow> (Inl KeyError, cs')
           | Some tbl \<Rightarrow>
               (case map_of tbl part of
                  None \<Rightarrow> (Inl KeyError, cs')
                | Some row \<Rightarrow>
                    from_cache_terms cache_function cache_dict
                      (fold (\<lambda>(part2, c2). add_term part2 (c * c2)) row z_elt) x cs')))"

definition from_cache ::
  "'a::semiring_0 element \<Rightarrow> (nat \<Rightarrow> 'a caches \<Rightarrow> (error + unit) \<times> 'a caches)
   \<Rightarrow> ('a caches \<Rightarrow> nat \<Rightarrow> 'a table option) \<Rightarrow> 'a caches
   \<Rightarrow> (error + 'a element) \<times> 'a caches" where
  "from_cache x cache_function cache_dict cs =
     from_cache_terms cache_function cache_dict [] x cs"

text \<open>
  \<^verbatim>\<open>_self_to_s\<close> and \<^verbatim>\<open>_s_to_self\<close> of the generic class, for the S basis: the coercions
  registered with the Schur functions.
\<close>

definition mcd_s_self_to_s ::
  "'a::field classical \<Rightarrow> 'a \<Rightarrow> 'a element \<Rightarrow> 'a caches
   \<Rightarrow> (error + 'a element) \<times> 'a caches" where
  "mcd_s_self_to_s lib t x =
     from_cache x (mcd_s_s_cache lib t) (\<lambda>cs. self_to_s_cache cs McdS)"

definition mcd_s_s_to_self ::
  "'a::field classical \<Rightarrow> 'a \<Rightarrow> 'a element \<Rightarrow> 'a caches
   \<Rightarrow> (error + 'a element) \<times> 'a caches" where
  "mcd_s_s_to_self lib t x =
     from_cache x (mcd_s_s_cache lib t) (\<lambda>cs. s_to_self_cache cs McdS)"

text \<open>The module-level dictionaries of a fresh process.\<close>

definition empty_caches :: "'a caches" where
  "empty_caches = \<lparr>self_to_s_cache = (\<lambda>f n. None), s_to_self_cache = (\<lambda>f n. None)\<rparr>"

subsection \<open>\<^verbatim>\<open>omega_qt\<close>\<close>







subsection \<open>The classical library in degrees at most two\<close>

text \<open>
  Modelled from the spec: the change of basis between the Schur functions and the power
  sums is supplied from outside (section 6 of the spec) and is not part of the sources
  at hand. In degrees at most two it is \<open>s[] = p[]\<close>, \<open>s[1] = p[1]\<close>,
  \<open>s[2] = (p[1,1] + p[2]) / 2\<close>, \<open>s[1,1] = (p[1,1] - p[2]) / 2\<close>, and back
  \<open>p[2] = s[2] - s[1,1]\<close>, \<open>p[1,1] = s[2] + s[1,1]\<close>; the matrices to invert there are
  \<open>1 \<times> 1\<close> or \<open>2 \<times> 2\<close>. \<open>classical_small\<close> is the library on these degrees only, to
  run the functions above on elements of degree at most two; with it \<^verbatim>\<open>_to_s\<close> and
  \<^verbatim>\<open>_s_cache\<close> give the values of their docstrings.
\<close>

definition extend_linearly ::
  "(partition \<Rightarrow> 'a element) \<Rightarrow> 'a::semiring_0 element \<Rightarrow> 'a element" where
  "extend_linearly rows x = fold (\<lambda>(m, c) res. element_add res (scale c (rows m))) x []"

definition small_schur_to_power :: "partition \<Rightarrow> 'a::field_char_0 element" where
  "small_schur_to_power m =
     (if m = [] then [([], 1)]
      else if m = [1] then [([1], 1)]
      else if m = [2] then [([1, 1], 1 / 2), ([2], 1 / 2)]
      else if m = [1, 1] then [([1, 1], 1 / 2), ([2], - 1 / 2)]
      else [])"

definition small_power_to_schur :: "partition \<Rightarrow> 'a::field_char_0 element" where
  "small_power_to_schur m =
     (if m = [] then [([], 1)]
      else if m = [1] then [([1], 1)]
      else if m = [2] then [([2], 1), ([1, 1], - 1)]
      else if m = [1, 1] then [([2], 1), ([1, 1], 1)]
      else [])"

definition small_matrix_inverse :: "'a::field list list \<Rightarrow> error + 'a list list" where
  "small_matrix_inverse M =
     (case M of
        [[a]] \<Rightarrow> if a = 0 then Inl ZeroDivisionError else Inr [[1 / a]]
      | [[a, b], [c, d]] \<Rightarrow>
          if a * d - b * c = 0 then Inl ZeroDivisionError
          else Inr [[d / (a * d - b * c), - b / (a * d - b * c)],
                    [- c / (a * d - b * c), a / (a * d - b * c)]]
      | _ \<Rightarrow> Inl NotImplementedError)"

definition classical_small :: "'a::field_char_0 classical" where
  "classical_small =
     \<lparr>schur_to_power = extend_linearly small_schur_to_power,
      power_to_schur = extend_linearly small_power_to_schur,
      matrix_inverse = small_matrix_inverse\<rparr>"

subsection \<open>Triangularity of a table\<close>






text \<open>
  The sum of the coefficients that a list gives to a partition; for the dictionary of an
  element it is the coefficient.
\<close>

definition total :: "'a::comm_monoid_add element \<Rightarrow> partition \<Rightarrow> 'a" where
  "total x k = sum_list (map (\<lambda>(m, c). if m = k then c else 0) x)"

section \<open>The qt-Kostka polynomials\<close>

text \<open>
  Modelled from the spec: \<^verbatim>\<open>Partition(l)\<close> of the partition library accepts the
  non-increasing lists of positive integers.
\<close>

definition is_partition :: "nat list \<Rightarrow> bool" where
  "is_partition l = (sorted (rev l) \<and> 0 \<notin> set l)"

text \<open>
  \<^verbatim>\<open>qt_kostka(lam, mu)\<close>, on the dictionary \<^verbatim>\<open>_qt_kostka_cache\<close> of the module. The zero
  polynomial is returned when the weights differ; a cached value is returned when there
  is one; otherwise, for every \<open>p2\<close> of \<^verbatim>\<open>Partitions(mu.size())\<close>, the Schur expansion
  \<^verbatim>\<open>s(H(p2))\<close> is computed and the numerator of each of its coefficients is stored at
  \<open>(p1, p2)\<close>. The expansion of the H basis and the numerator of a coefficient are
  arguments; \<open>'p\<close> is the polynomial ring \<^verbatim>\<open>QQ['q,t']\<close>.
\<close>

definition qt_kostka_fill ::
  "(partition \<Rightarrow> 'c::zero element) \<Rightarrow> ('c \<Rightarrow> 'p) \<Rightarrow> nat
   \<Rightarrow> (partition \<times> partition \<Rightarrow> 'p option) \<Rightarrow> (partition \<times> partition \<Rightarrow> 'p option)" where
  "qt_kostka_fill h_to_s numerator n cache =
     fold (\<lambda>p2 cache2.
             fold (\<lambda>p1 cache1. cache1((p1, p2) \<mapsto> numerator (coefficient (h_to_s p2) p1)))
                  (partitions n) cache2)
          (partitions n) cache"

definition qt_kostka ::
  "(partition \<Rightarrow> 'c::zero element) \<Rightarrow> ('c \<Rightarrow> 'p::zero) \<Rightarrow> nat list \<Rightarrow> nat list
   \<Rightarrow> (partition \<times> partition \<Rightarrow> 'p option)
   \<Rightarrow> (error + 'p) \<times> (partition \<times> partition \<Rightarrow> 'p option)" where
  "qt_kostka h_to_s numerator lam mu cache =
     (if \<not> is_partition lam \<or> \<not> is_partition mu then (Inl ValueError, cache)
      else if size_p lam \<noteq> size_p mu then (Inr 0, cache)
      else case cache (lam, mu) of
             Some v \<Rightarrow> (Inr v, cache)
           | None \<Rightarrow>
               (let cache' = qt_kostka_fill h_to_s numerator (size_p mu) cache
                in (case cache' (lam, mu) of None \<Rightarrow> Inl KeyError | Some v \<Rightarrow> Inr v, cache')))"

section \<open>Properties\<close>

subsection \<open>The structural scalars\<close>

lemma length_concat_arm_lengths: "length (concat (arm_lengths part)) = size_p part"
  by (induction part) (simp_all add: arm_lengths_def size_p_def)

lemma length_concat_map_upt:
  "length (concat (map (\<lambda>i. map (f i) [0..<g i]) xs)) = sum_list (map g xs)"
  by (induction xs) simp_all

lemma length_concat_leg_lengths: "length (concat (leg_lengths part)) = size_p part"
proof -
  have "length (concat (leg_lengths part)) = sum_list (map (\<lambda>i. part ! i) [0..<length part])"
    unfolding leg_lengths_def by (rule length_concat_map_upt)
  also have "map (\<lambda>i. part ! i) [0..<length part] = part"
    by (rule map_nth)
  finally show ?thesis by (simp add: size_p_def)
qed

lemma foldl_times_prod_list:
  "foldl (\<lambda>res i. res * f i) (a::'a::comm_ring_1) xs = a * prod_list (map f xs)"
  by (induction xs arbitrary: a) (simp_all add: mult.assoc)

lemma map_upt_zip_nth:
  assumes "length xs = n" and "length ys = n"
  shows "map (\<lambda>i. f (xs ! i) (ys ! i)) [0..<n] = map (\<lambda>(x, y). f x y) (zip xs ys)"
  using assms by (intro nth_equalityI) simp_all

lemma c1_prod_cells:
  "c1 part q t = prod_list (map (\<lambda>(a, l). 1 - q ^ (a + 1) * t ^ l) (cells part))"
  unfolding c1_def cells_def foldl_times_prod_list
  using map_upt_zip_nth [OF length_concat_arm_lengths length_concat_leg_lengths,
      of "\<lambda>a l. 1 - q ^ (a + 1) * t ^ l" part]
  by simp

lemma c2_prod_cells:
  "c2 part q t = prod_list (map (\<lambda>(a, l). 1 - q ^ a * t ^ (l + 1)) (cells part))"
  unfolding c2_def cells_def foldl_times_prod_list
  using map_upt_zip_nth [OF length_concat_arm_lengths length_concat_leg_lengths,
      of "\<lambda>a l. 1 - q ^ a * t ^ (l + 1)" part]
  by simp

lemma c1_11: "c1 [1, 1] q t = q\<^sup>2 * t - q * t - q + 1"
  by (simp add: c1_def size_p_def arm_lengths_def leg_lengths_def upt_conv_Cons
      algebra_simps power2_eq_square)

lemma c2_11: "c2 [1, 1] q t = t ^ 3 - t\<^sup>2 - t + 1"
  by (simp add: c2_def size_p_def arm_lengths_def leg_lengths_def upt_conv_Cons
      algebra_simps power2_eq_square power3_eq_cube)

text \<open>
  C7, as stated: \<open>c1([1,1]) = q t - q - t + 1\<close>. The identity of polynomials fails: at
  \<open>q = 2\<close>, \<open>t = 3\<close> the code's product is \<open>(1 - 6) (1 - 2) = 5\<close>, the stated polynomial
  is \<open>2\<close>.
\<close>

theorem c1_11_stated_value_counterexample:
  "c1 [1, 1] (2::int) 3 \<noteq> 2 * 3 - 2 - 3 + 1"
  using c1_11 [of "2::int" 3] by simp

text \<open>
  C7, amended: \<open>c1(\<lambda>)\<close> is the product over the cells of \<open>\<lambda>\<close> of
  \<open>1 - q ^ (arm + 1) * t ^ leg\<close> and \<open>c2(\<lambda>)\<close> the product of
  \<open>1 - q ^ arm * t ^ (leg + 1)\<close>; at the partition \<open>[1,1]\<close> they are
  \<open>c1([1,1]) = q\<^sup>2 t - q t - q + 1\<close> (the value that the docstring of \<^verbatim>\<open>c1\<close> gives) and
  \<open>c2([1,1]) = t\<^sup>3 - t\<^sup>2 - t + 1\<close>.
\<close>

theorem c1_c2_at_11:
  "c1 [1, 1] q t = q\<^sup>2 * t - q * t - q + 1
   \<and> c2 [1, 1] q t = t ^ 3 - t\<^sup>2 - t + 1
   \<and> c1 part q t = prod_list (map (\<lambda>(a, l). 1 - q ^ (a + 1) * t ^ l) (cells part))
   \<and> c2 part q t = prod_list (map (\<lambda>(a, l). 1 - q ^ a * t ^ (l + 1)) (cells part))"
  using c1_11 [of q t] c2_11 [of q t] c1_prod_cells [of part q t] c2_prod_cells [of part q t]
  by simp

subsection \<open>The nabla operator\<close>

text \<open>
  C6: for every partition \<open>\<lambda>\<close>, \<^verbatim>\<open>nabla\<close> returns, on the basis element \<open>Ht(\<lambda>)\<close>, the
  element \<open>t\<^bsup>n(\<lambda>)\<^esup> q\<^bsup>n(\<lambda>')\<^esup> Ht(\<lambda>)\<close>; and on the sum of the basis elements \<open>Ht(p)\<close> for
  \<open>p\<close> in \<^verbatim>\<open>Partitions(3)\<close> it returns an element with the same terms as
  \<open>t\<^sup>3 Ht([1,1,1]) + q t Ht([2,1]) + q\<^sup>3 Ht([3])\<close>.
\<close>

theorem nabla_on_ht_basis:
  "ht_nabla q t (basis_element part)
     = Inr (scale (t ^ weighted_size part * q ^ weighted_size (conjugate part))
                  (basis_element part))
   \<and> (\<exists>r. ht_nabla q t (element_sum (map basis_element (partitions 3))) = Inr r
          \<and> set r = set (element_add
                           (element_add (scale (t ^ 3) (basis_element [1, 1, 1]))
                                        (scale (q * t) (basis_element [2, 1])))
                           (scale (q ^ 3) (basis_element [3]))))"
proof
  show "ht_nabla q t (basis_element part)
     = Inr (scale (t ^ weighted_size part * q ^ weighted_size (conjugate part))
                  (basis_element part))"
    by (simp add: ht_nabla_def apply_module_morphism_def basis_element_def scale_def
        element_add_def)
next
  show "\<exists>r. ht_nabla q t (element_sum (map basis_element (partitions 3))) = Inr r
          \<and> set r = set (element_add
                           (element_add (scale (t ^ 3) (basis_element [1, 1, 1]))
                                        (scale (q * t) (basis_element [2, 1])))
                           (scale (q ^ 3) (basis_element [3])))"
    by (auto simp add: ht_nabla_def apply_module_morphism_def basis_element_def scale_def
        element_add_def element_sum_def partitions_def numeral_3_eq_3 numeral_2_eq_2
        weighted_size_def conjugate_def upt_conv_Cons)
qed

subsection \<open>The scalar product of the P and Q bases\<close>

text \<open>
  C2: for partitions \<open>\<lambda>\<close> and \<open>\<mu>\<close> of equal weight, \<^verbatim>\<open>scalar_qt\<close> of \<open>P(\<lambda>)\<close> with \<open>Q(\<mu>)\<close>
  returns \<open>1\<close> when \<open>\<lambda> = \<mu>\<close> and \<open>0\<close> otherwise, in either order of the operands.
\<close>

theorem p_q_dual:
  assumes "size_p lam = size_p mu"
  shows "scalar_qt lib q t (Macdonald McdP, basis_element lam) (Macdonald McdQ, basis_element mu)
           = Inr (if lam = mu then 1 else 0)
       \<and> scalar_qt lib q t (Macdonald McdQ, basis_element mu) (Macdonald McdP, basis_element lam)
           = Inr (if lam = mu then 1 else 0)"
  by (simp add: p_scalar_qt_def q_scalar_qt_def apply_multi_module_morphism_def
      basis_element_def)

theorem p_q_dual_witness:
  "size_p [2, 1] = size_p [1, 1, 1]
   \<and> scalar_qt \<lparr>to_power = (\<lambda>x. Inr (snd x)), centralizer_size = (\<lambda>p t q. Inr 1)\<rparr> (2::rat) 3
       (Macdonald McdP, basis_element [2, 1]) (Macdonald McdQ, basis_element [1, 1, 1]) = Inr 0
   \<and> scalar_qt \<lparr>to_power = (\<lambda>x. Inr (snd x)), centralizer_size = (\<lambda>p t q. Inr 1)\<rparr> (2::rat) 3
       (Macdonald McdP, basis_element [2, 1]) (Macdonald McdQ, basis_element [2, 1]) = Inr 1"
  using p_q_dual [of "[2, 1]" "[1, 1, 1]"
      "\<lparr>to_power = (\<lambda>x. Inr (snd x)), centralizer_size = (\<lambda>p t q. Inr 1)\<rparr>" "2::rat" 3]
    p_q_dual [of "[2, 1]" "[2, 1]"
      "\<lparr>to_power = (\<lambda>x. Inr (snd x)), centralizer_size = (\<lambda>p t q. Inr 1)\<rparr>" "2::rat" 3]
  by (simp add: size_p_def)

subsection \<open>The fallback of the specialised scalar products\<close>

text \<open>
  C4, at the operands \<open>P(x)\<close> and \<open>H(y)\<close>, and \<open>J(x)\<close> and \<open>H(y)\<close>, for which no
  specialised route exists: \<^verbatim>\<open>scalar_qt\<close> raises \<^verbatim>\<open>NameError\<close> on an element of the P basis
  and \<^verbatim>\<open>TypeError\<close> on an element of the J basis, where the Q basis, on the same second
  operand, returns the value of the generic power-sum route.
\<close>

theorem scalar_qt_fallback_raises:
  "scalar_qt lib q t (Macdonald McdP, x) (Macdonald McdH, y) = Inl NameError
   \<and> scalar_qt lib q t (Macdonald McdJ, x) (Macdonald McdH, y) = Inl TypeError
   \<and> scalar_qt lib q t (Macdonald McdQ, x) (Macdonald McdH, y)
       = generic_scalar_qt lib q t (Macdonald McdQ, x) (Macdonald McdH, y)"
  by (simp add: p_scalar_qt_def q_scalar_qt_def j_scalar_qt_def)

subsection \<open>The parameters of a basis\<close>



subsection \<open>The creation operator\<close>

lemma apply_module_morphism_from_error:
  assumes "\<exists>(m, c) \<in> set x. f m = Inl e"
    and "\<forall>(m, c) \<in> set x. \<forall>e'. f m = Inl e' \<longrightarrow> e' = e"
  shows "apply_module_morphism_from res x f = Inl e"
  using assms
proof (induction x arbitrary: res)
  case Nil
  then show ?case by simp
next
  case (Cons a x)
  obtain m c where a: "a = (m, c)" by (cases a)
  show ?case
  proof (cases "f m")
    case (Inl e')
    with Cons.prems(2) a have "e' = e" by auto
    with Inl a show ?thesis by simp
  next
    case (Inr y)
    with Cons.prems(1) a have "\<exists>(m, c) \<in> set x. f m = Inl e" by auto
    moreover from Cons.prems(2)
    have "\<forall>(m, c) \<in> set x. \<forall>e'. f m = Inl e' \<longrightarrow> e' = e" by auto
    ultimately have "apply_module_morphism_from (element_add res (scale c y)) x f = Inl e"
      by (rule Cons.IH)
    with Inr a show ?thesis by simp
  qed
qed

lemma apply_module_morphism_from_cong:
  assumes "\<forall>(m, c) \<in> set x. f m = g m"
  shows "apply_module_morphism_from res x f = apply_module_morphism_from res x g"
  using assms
  by (induction x arbitrary: res) (auto split: sum.splits)

lemma creation_matrix_square:
  "length (creation_matrix q t k part) = k
   \<and> (\<forall>row \<in> set (creation_matrix q t k part). length row = k)"
  by (auto simp add: creation_matrix_def Let_def)

lemma helper_long:
  "k < length m \<Longrightarrow> creation_by_determinant_helper det_s q t k m = Inl ValueError"
  by (simp add: creation_by_determinant_helper_def Let_def)

lemma helper_short:
  "length m \<le> k \<Longrightarrow> creation_by_determinant_helper det_s q t k m
     = Inr (det_s (creation_matrix q t k (m @ replicate (k - length m) 0)))"
  by (simp add: creation_by_determinant_helper_def Let_def)

lemma helper_error:
  "creation_by_determinant_helper det_s q t k m = Inl e \<Longrightarrow> e = ValueError"
  by (simp add: creation_by_determinant_helper_def Let_def split: if_splits)

text \<open>
  C9: for an element \<open>x\<close> of the S basis and \<open>k > 0\<close>, if a partition in the support of
  \<open>x\<close> is longer than \<open>k\<close> then \<^verbatim>\<open>x.creation(k)\<close> raises \<^verbatim>\<open>ValueError\<close>; otherwise it is the
  linear extension of the determinants of the matrices built from the support partitions
  padded with zeros, each padded partition of length exactly \<open>k\<close> and each matrix
  \<open>k \<times> k\<close>.
\<close>

theorem creation_too_long:
  assumes "0 < k"
  shows "((\<exists>(m, c) \<in> set x. k < length m) \<longrightarrow> creation det_s q t x k = Inl ValueError)
    \<and> ((\<forall>(m, c) \<in> set x. length m \<le> k) \<longrightarrow>
         creation det_s q t x k
           = apply_module_morphism x
               (\<lambda>m. Inr (det_s (creation_matrix q t k (m @ replicate (k - length m) 0))))
         \<and> (\<forall>(m, c) \<in> set x.
               length (m @ replicate (k - length m) 0) = k
               \<and> length (creation_matrix q t k (m @ replicate (k - length m) 0)) = k
               \<and> (\<forall>row \<in> set (creation_matrix q t k (m @ replicate (k - length m) 0)).
                     length row = k)))"
proof (intro conjI impI)
  assume long: "\<exists>(m, c) \<in> set x. k < length m"
  have "\<exists>(m, c) \<in> set x. creation_by_determinant_helper det_s q t k m = Inl ValueError"
    using long helper_long [of k _ det_s q t] by fast
  moreover have "\<forall>(m, c) \<in> set x. \<forall>e'.
      creation_by_determinant_helper det_s q t k m = Inl e' \<longrightarrow> e' = ValueError"
    using helper_error [of det_s q t k] by fast
  ultimately show "creation det_s q t x k = Inl ValueError"
    unfolding creation_def apply_module_morphism_def
    by (rule apply_module_morphism_from_error)
next
  assume short: "\<forall>(m, c) \<in> set x. length m \<le> k"
  have "\<forall>(m, c) \<in> set x. creation_by_determinant_helper det_s q t k m
          = Inr (det_s (creation_matrix q t k (m @ replicate (k - length m) 0)))"
    using short helper_short [of _ k det_s q t] by fast
  then show "creation det_s q t x k
           = apply_module_morphism x
               (\<lambda>m. Inr (det_s (creation_matrix q t k (m @ replicate (k - length m) 0))))"
    unfolding creation_def apply_module_morphism_def
    by (rule apply_module_morphism_from_cong)
next
  assume short: "\<forall>(m, c) \<in> set x. length m \<le> k"
  show "\<forall>(m, c) \<in> set x.
               length (m @ replicate (k - length m) 0) = k
               \<and> length (creation_matrix q t k (m @ replicate (k - length m) 0)) = k
               \<and> (\<forall>row \<in> set (creation_matrix q t k (m @ replicate (k - length m) 0)).
                     length row = k)"
    using short creation_matrix_square by fastforce
qed

theorem creation_too_long_witness:
  "(0::nat) < 1
   \<and> creation det_s_1x1 (2::rat) 3 [([1, 1], 1)] 1 = Inl ValueError
   \<and> creation det_s_1x1 (2::rat) 3 [([], 1)] 1 = Inr [([1], - 1)]"
  using creation_too_long [of 1 "[([1, 1], 1)]" det_s_1x1 "2::rat" 3]
    creation_too_long [of 1 "[([], 1)]" det_s_1x1 "2::rat" 3]
  by (simp add: apply_module_morphism_def creation_matrix_def scale_def basis_element_def
      element_add_def det_s_1x1_def)

subsection \<open>Round trips between the bases\<close>


lemma module_morphism_diagonal_term:
  "v \<noteq> 0 \<Longrightarrow> module_morphism_diagonal d [(m, v)]
    = and_then (d m) (\<lambda>w. Inr (if v * w = 0 then [] else [(m, v * w)]))"
  by (simp add: module_morphism_diagonal_def apply_module_morphism_def basis_element_def
      and_then_def scale_def element_add_def split: sum.splits)










lemma map_scale_id:
  assumes "\<forall>(m, c) \<in> set x. w m = (1::'a::field)"
  shows "map (\<lambda>(m, c). (m, c * w m)) x = x"
  using assms by (induction x) auto



subsection \<open>Sums of coefficients\<close>

lemma total_Nil [simp]: "total [] k = 0"
  by (simp add: total_def)

lemma total_Cons [simp]: "total ((m, c) # x) k = (if m = k then c else 0) + total x k"
  by (simp add: total_def)

lemma total_absent: "k \<notin> fst ` set x \<Longrightarrow> total x k = 0"
  by (induction x) auto

lemma coefficient_total:
  "distinct (map fst x) \<Longrightarrow> coefficient x k = total x k"
  by (induction x) (auto simp add: coefficient_def total_absent)

lemma keys_add_term: "fst ` set (add_term m c x) \<subseteq> insert m (fst ` set x)"
  by (induction x) (auto split: if_splits, force+)

lemma distinct_add_term:
  "distinct (map fst x) \<Longrightarrow> distinct (map fst (add_term m c x))"
proof (induction x)
  case Nil
  then show ?case by simp
next
  case (Cons a x)
  obtain k d where a: "a = (k, d)" by (cases a)
  have "k \<noteq> m \<Longrightarrow> k \<notin> fst ` set (add_term m c x)"
    using keys_add_term [of m c x] Cons.prems a by auto
  then show ?case using Cons a by auto
qed

lemma total_add_term:
  "total (add_term m c x) k = total x k + (if m = k then c else (0::'a::comm_ring))"
proof (induction x)
  case Nil
  then show ?case by simp
next
  case (Cons a x)
  obtain j d where a: "a = (j, d)" by (cases a)
  show ?case using Cons a by (auto simp add: algebra_simps add_eq_0_iff)
qed

lemma fold_add_term:
  "total (fold (\<lambda>(m, c). add_term m (g m c)) y x) k
     = total x k + sum_list (map (\<lambda>(m, c). if m = k then g m c else (0::'a::comm_ring)) y)"
  by (induction y arbitrary: x) (auto simp add: total_add_term)

lemma distinct_fold_add_term:
  "distinct (map fst x) \<Longrightarrow> distinct (map fst (fold (\<lambda>(m, c). add_term m (g m c)) y x))"
  by (induction y arbitrary: x) (auto simp add: distinct_add_term)

lemma total_scale: "total (scale c x) k = c * total x (k::partition)"
  for c :: "'a::comm_ring"
proof (induction x)
  case Nil
  then show ?case by (simp add: scale_def)
next
  case (Cons a x)
  obtain m d where a: "a = (m, d)" by (cases a)
  have "scale c (a # x) = (if c * d \<noteq> 0 then [(m, c * d)] else []) @ scale c x"
    using a by (simp add: scale_def)
  then show ?case using Cons a by (auto simp add: algebra_simps)
qed

lemma total_element_add: "total (element_add x y) k = total x k + total y k"
  for x :: "'a::comm_ring element"
  using fold_add_term [of "\<lambda>m c. c" y x k]
  by (simp add: element_add_def total_def)

lemma distinct_element_add:
  "distinct (map fst x) \<Longrightarrow> distinct (map fst (element_add x y))"
  using distinct_fold_add_term [of x "\<lambda>m c. c" y] by (simp add: element_add_def)

lemma fold_extend:
  "total (fold (\<lambda>(m, c) res. element_add res (scale c (rows m))) x res) k
     = total res k + sum_list (map (\<lambda>(m, c). c * total (rows m) k) x)
   \<and> (distinct (map fst res) \<longrightarrow>
        distinct (map fst (fold (\<lambda>(m, c) res. element_add res (scale c (rows m))) x res)))"
  for res :: "'a::comm_ring element"
  by (induction x arbitrary: res)
    (auto simp add: total_element_add total_scale distinct_element_add algebra_simps)

lemma total_extend_linearly:
  "total (extend_linearly rows x) k = sum_list (map (\<lambda>(m, c). c * total (rows m) k) x)"
  for x :: "'a::comm_ring element"
  using fold_extend [of rows x "[]" k] by (simp add: extend_linearly_def)

lemma distinct_extend_linearly: "distinct (map fst (extend_linearly rows x))"
  for x :: "'a::comm_ring element"
  using fold_extend [of rows x "[]"] by (simp add: extend_linearly_def)

lemma sum_list_single:
  fixes F :: "partition \<Rightarrow> 'a::comm_ring"
  assumes "distinct ms"
  shows "sum_list (map (\<lambda>a. (if m = a then c else 0) * F a) ms)
           = (if m \<in> set ms then c * F m else 0)"
  using assms by (induction ms) auto

lemma sum_list_support:
  fixes F :: "partition \<Rightarrow> 'a::comm_ring"
  assumes "\<And>m. m \<notin> set ms \<Longrightarrow> F m = 0" and "distinct ms"
  shows "sum_list (map (\<lambda>(m, c). c * F m) y) = sum_list (map (\<lambda>a. total y a * F a) ms)"
proof (induction y)
  case Nil
  then show ?case by simp
next
  case (Cons b y)
  obtain m c where b: "b = (m, c)" by (cases b)
  have "c * F m = sum_list (map (\<lambda>a. (if m = a then c else 0) * F a) ms)"
    using assms by (simp add: sum_list_single)
  then show ?case using Cons b
    by (simp add: algebra_simps sum_list_addf)
qed


subsection \<open>The S basis in degrees one and two\<close>

lemma total_map_item:
  "total (map_item (\<lambda>m c. (m, c * w m)) y) a = total y a * w a"
  for y :: "'a::comm_ring element"
proof -
  have "sum_list (map (\<lambda>(m, c). if m = a then c * w m else 0) y) = total y a * w a"
    by (induction y) (auto simp add: algebra_simps)
  then show ?thesis
    using fold_add_term [of "\<lambda>m c. c * w m" y "[]" a]
    by (simp add: map_item_def case_prod_unfold)
qed

lemma mcd_s_to_s_small:
  "mcd_s_to_s classical_small t part p
     = sum_list (map (\<lambda>a. total (small_schur_to_power part) a
                           * prod_list (map (\<lambda>k. 1 - t ^ k) a)
                           * total (small_power_to_schur a) p)
                     [[], [1], [2], [1, 1]])"
proof -
  let ?y1 = "extend_linearly small_schur_to_power (basis_element part) :: 'a element"
  let ?y2 = "map_item (\<lambda>m c. (m, c * prod_list (map (\<lambda>k. 1 - t ^ k) m))) ?y1"
  have "mcd_s_to_s classical_small t part p
          = coefficient (extend_linearly small_power_to_schur ?y2) p"
    by (simp add: mcd_s_to_s_def classical_small_def)
  also have "\<dots> = total (extend_linearly small_power_to_schur ?y2) p"
    by (rule coefficient_total) (rule distinct_extend_linearly)
  also have "\<dots> = sum_list (map (\<lambda>(m, c). c * total (small_power_to_schur m) p) ?y2)"
    by (rule total_extend_linearly)
  also have "\<dots> = sum_list (map (\<lambda>a. total ?y2 a * total (small_power_to_schur a) p)
                               [[], [1], [2], [1, 1]])"
    by (rule sum_list_support) (simp_all add: small_power_to_schur_def)
  also have "\<dots> = sum_list (map (\<lambda>a. total (small_schur_to_power part) a
                           * prod_list (map (\<lambda>k. 1 - t ^ k) a)
                           * total (small_power_to_schur a) p)
                     [[], [1], [2], [1, 1]])"
    by (simp add: total_map_item total_extend_linearly basis_element_def)
  finally show ?thesis .
qed

lemma partitions_1: "partitions (Suc 0) = [[Suc 0]]"
  by (simp add: partitions_def)



lemma to_s_1:
  "mcd_s_to_s classical_small t [Suc 0] p = (if p = [Suc 0] then 1 - t else 0)"
  by (simp add: mcd_s_to_s_small small_schur_to_power_def small_power_to_schur_def)




lemma matrix_inverse_small: "matrix_inverse classical_small = small_matrix_inverse"
  by (simp add: classical_small_def)



lemma dense_1: "dense_matrix (mcd_s_to_s classical_small t) (Suc 0) = [[1 - t]]"
  by (simp add: dense_matrix_def partitions_1 to_s_1)


lemma direct_1:
  "direct_table (mcd_s_to_s classical_small t) (Suc 0)
     = [([Suc 0], filter (\<lambda>(p, v). v \<noteq> 0) [([Suc 0], 1 - t)])]"
  by (simp add: direct_table_def partitions_1 to_s_1)








subsection \<open>\<^verbatim>\<open>omega_qt\<close> on the S basis\<close>

lemma s_cache_1:
  assumes "t \<noteq> (1::'a::field_char_0)"
  shows "mcd_s_s_cache classical_small t (Suc 0) empty_caches
     = (Inr (), \<lparr>self_to_s_cache = (\<lambda>f n. None)(McdS := [Suc 0 \<mapsto> [([Suc 0], [([Suc 0], 1 - t)])]]),
                 s_to_self_cache = (\<lambda>f n. None)(McdS := [Suc 0 \<mapsto> [([Suc 0], [([Suc 0], 1 / (1 - t))])]])\<rparr>)"
  using assms
  by (simp add: mcd_s_s_cache_def invert_morphism_def empty_caches_def dense_1 direct_1
      matrix_inverse_small small_matrix_inverse_def table_of_matrix_def partitions_1)







subsection \<open>The degree guard of \<^verbatim>\<open>qt_kostka\<close>\<close>

text \<open>
  For partitions of different weight \<^verbatim>\<open>qt_kostka\<close> returns the zero polynomial and leaves
  its cache as it was, whatever the expansion of the H basis is.
\<close>

lemma qt_kostka_different_weight:
  assumes "is_partition lam" and "is_partition mu" and "size_p lam \<noteq> size_p mu"
  shows "qt_kostka h_to_s numerator lam mu cache = (Inr 0, cache)"
  using assms by (simp add: qt_kostka_def)

subsection \<open>The S basis and the Schur functions in degree one\<close>

text \<open>
  Through the tables of \<^verbatim>\<open>_s_cache(1)\<close>, \<open>c S[1]\<close> goes to the Schur functions and comes
  back when \<open>t \<noteq> 1\<close>; at \<open>t = 1\<close> the direct table is zero and its inversion raises.
\<close>

lemma mcd_s_round_trip_degree_1:
  assumes "t \<noteq> (1::'a::field_char_0)" and "c \<noteq> 0"
  shows "(case mcd_s_self_to_s classical_small t [([1], c)] empty_caches of
            (Inl e, cs') \<Rightarrow> Inl e
          | (Inr y, cs') \<Rightarrow> fst (mcd_s_s_to_self classical_small t y cs'))
         = Inr [([1], c)]"
  using assms s_cache_1 [OF assms(1)]
  by (simp add: mcd_s_self_to_s_def mcd_s_s_to_self_def from_cache_def empty_caches_def)

lemma mcd_s_singular_degree_1:
  "fst (mcd_s_self_to_s classical_small (1::'a::field_char_0) [([1], c)] empty_caches)
     = Inl ZeroDivisionError"
  by (simp add: mcd_s_self_to_s_def from_cache_def empty_caches_def mcd_s_s_cache_def
      invert_morphism_def dense_1 matrix_inverse_small small_matrix_inverse_def)

end
